theory Spec2Isabelle
  imports Complex_Main
begin

section \<open>Python values used by typejson\_titlecraft/core.py\<close>

text \<open>
  A Python \<open>str\<close> is a sequence of Unicode code points and \<open>len\<close> counts code points,
  so a string is a list of code points. The instruction prompts of the module contain
  the code points 8211, 8212, 8226 and 8804, which do not fit an 8-bit character.
  \<open>lit\<close> embeds an ASCII literal.
\<close>

type_synonym pystr = "nat list"

definition lit :: "string \<Rightarrow> pystr" where
  "lit s = map of_char s"

text \<open>
  \<open>str.isspace\<close> of CPython for one code point: the table behind \<open>str.strip()\<close> when no
  argument is given (tab to carriage return, the four separators 28..31, space,
  133, 160, 5760, 8192..8202, 8232, 8233, 8239, 8287, 12288).
\<close>

definition isspace :: "nat \<Rightarrow> bool" where
  "isspace c \<longleftrightarrow>
     (9 \<le> c \<and> c \<le> 13) \<or> (28 \<le> c \<and> c \<le> 32) \<or> c = 133 \<or> c = 160 \<or> c = 5760 \<or>
     (8192 \<le> c \<and> c \<le> 8202) \<or> c = 8232 \<or> c = 8233 \<or> c = 8239 \<or> c = 8287 \<or> c = 12288"

text \<open>
  \<open>s.strip()\<close> and \<open>s.strip(chars)\<close>: every leading and every trailing code point
  of the class is removed, however many there are.
\<close>

definition strip_with :: "(nat \<Rightarrow> bool) \<Rightarrow> pystr \<Rightarrow> pystr" where
  "strip_with p s = rev (dropWhile p (rev (dropWhile p s)))"

definition strip :: "pystr \<Rightarrow> pystr" where
  "strip s = strip_with isspace s"

definition strip_chars :: "pystr \<Rightarrow> pystr \<Rightarrow> pystr" where
  "strip_chars chars s = strip_with (\<lambda>c. c \<in> set chars) s"

text \<open>\<open>sep.join(xs)\<close>.\<close>

fun join :: "pystr \<Rightarrow> pystr list \<Rightarrow> pystr" where
  "join sep [] = []"
| "join sep [x] = x"
| "join sep (x # y # ys) = x @ sep @ join sep (y # ys)"

text \<open>Truthiness of an \<open>Optional[str]\<close>, and \<open>a or b\<close> on such values.\<close>

definition truthy :: "pystr option \<Rightarrow> bool" where
  "truthy v = (case v of None \<Rightarrow> False | Some s \<Rightarrow> s \<noteq> [])"

definition py_or :: "pystr option \<Rightarrow> pystr option \<Rightarrow> pystr option" where
  "py_or a b = (if truthy a then a else b)"

section \<open>Exceptions\<close>

text \<open>
  \<open>APIError\<close> and \<open>ValidationError\<close> are the module's own classes; \<open>IndexError\<close> is what
  \<open>response.choices[0]\<close> raises on an empty list; \<open>UpstreamException\<close> stands for
  whatever subclass of \<open>Exception\<close> the provider's library raises. An exception
  carries \<open>str(e)\<close>, the attribute \<open>status_code\<close> when it has one (\<open>hasattr\<close>), and
  the cause set by \<open>raise ... from e\<close>.
\<close>

datatype exc_class = APIError | ValidationError | IndexError | UpstreamException

datatype exn = Exn (exc_class: exc_class) (message: pystr) (status_code: "int option")
  (cause: "exn option")

section \<open>Module constants\<close>

definition SUPPORTED_MODELS :: "pystr list" where
  "SUPPORTED_MODELS =
     [lit ''gpt-5'', lit ''gpt-5-mini'', lit ''gpt-5-nano'', lit ''gpt-4o'',
      lit ''gpt-4o-mini'', lit ''gpt-4'', lit ''gpt-3.5-turbo'']"

definition GPT5_MODELS :: "pystr set" where
  "GPT5_MODELS = {lit ''gpt-5'', lit ''gpt-5-mini'', lit ''gpt-5-nano''}"

section \<open>The client and its construction\<close>

text \<open>
  \<open>OpenAI(api_key=...)\<close> is the provider's client object; the module only hands it
  the credential. \<open>private_client\<close> is the attribute \<open>self._client\<close>.
\<close>

record OpenAI =
  api_key :: pystr

record Client =
  model :: pystr
  private_client :: OpenAI

text \<open>The process environment read by \<open>os.getenv\<close>.\<close>

type_synonym environ = "pystr \<rightharpoonup> pystr"

definition getenv :: "environ \<Rightarrow> pystr \<Rightarrow> pystr option" where
  "getenv env name = env name"

definition unsupported_model_error :: "pystr \<Rightarrow> exn" where
  "unsupported_model_error m =
     Exn ValidationError
       (lit ''Unsupported model '' @ [39] @ m @ [39] @ lit ''. Supported models: ''
          @ join (lit '', '') SUPPORTED_MODELS)
       None None"

definition api_key_required_error :: exn where
  "api_key_required_error =
     Exn ValidationError
       (lit ''OpenAI API key required. Provide it via openai_api_key parameter ''
          @ lit ''or set OPENAI_API_KEY environment variable.'')
       None None"

text \<open>\<open>Client.__init__\<close> (core.py lines 42-72).\<close>

definition init :: "environ \<Rightarrow> pystr option \<Rightarrow> pystr \<Rightarrow> exn + Client" where
  "init env openai_api_key m =
     (if m \<notin> set SUPPORTED_MODELS then Inl (unsupported_model_error m)
      else
        (case py_or openai_api_key (getenv env (lit ''OPENAI_API_KEY'')) of
           None \<Rightarrow> Inl api_key_required_error
         | Some k \<Rightarrow>
             if k = [] then Inl api_key_required_error
             else Inr \<lparr>model = m, private_client = \<lparr>api_key = k\<rparr>\<rparr>))"

section \<open>The prompt builder\<close>

definition base_prompt :: pystr where
  "base_prompt =
     lit ''You convert plain text into a concise, descriptive, human-readable title for ''
     @ lit ''frontend display.'' @ [10]
     @ lit ''Rules:'' @ [10]
     @ [8226] @ lit '' Output in the same language as the input.'' @ [10]
     @ [8226] @ lit '' Be concise: aim for 4'' @ [8211] @ lit ''9 words or '' @ [8804]
     @ lit ''60 characters. Prefer clarity over creativity.'' @ [10]
     @ [8226] @ lit '' Preserve key proper nouns and terms; do not invent information.'' @ [10]
     @ [8226] @ lit '' Remove filler words, boilerplate, IDs, and dates unless essential.'' @ [10]
     @ [8226] @ lit '' Casing: Title Case for Latin scripts; keep natural casing for non-Latin scripts ''
     @ lit ''(e.g., Japanese).'' @ [10]
     @ [8226] @ lit '' Punctuation: no quotes/brackets/emojis/hashtags; no trailing period. Use colon ''
     @ lit ''or dash only if it clearly improves clarity.'' @ [10]
     @ [8226] @ lit '' If the input is already a good title, normalize casing/spacing and return it.'' @ [10]
     @ [8226] @ lit '' If input is empty or meaningless, return: Untitled'' @ [10]
     @ lit ''Return only the title text'' @ [8212] @ lit ''no explanations.''"

definition simplified_prompt :: pystr where
  "simplified_prompt =
     lit ''Convert text to a concise title (4-9 words, '' @ [8804] @ lit ''60 chars). ''
     @ lit ''Same language as input. Title Case for Latin scripts. ''
     @ lit ''No quotes/brackets/emojis. Return only the title.''"

text \<open>\<open>Client._get_system_prompt\<close> (core.py lines 112-140).\<close>

definition get_system_prompt :: "Client \<Rightarrow> pystr" where
  "get_system_prompt self =
     (if model self \<in> set [lit ''gpt-3.5-turbo''] then simplified_prompt else base_prompt)"

section \<open>The upstream service\<close>

text \<open>
  The two calls of the provider's client the module makes, with their keyword
  arguments. A Python dict literal is an association list; the float literals
  \<open>30.0\<close> and \<open>0.3\<close> are the decimals they denote.
\<close>

type_synonym pydict = "(pystr \<times> pystr) list"

record responses_request =
  responses_model :: pystr
  input :: pystr
  reasoning :: pydict
  text_param :: pydict
  responses_timeout :: real

record chat_request =
  chat_model :: pystr
  messages :: "pydict list"
  max_completion_tokens :: int
  temperature :: real
  chat_timeout :: real

datatype request = Responses_create responses_request | Chat_completions_create chat_request

text \<open>
  What the module reads of a response: \<open>response.output_text\<close>, and
  \<open>choice.message.content\<close> for each element of \<open>response.choices\<close>.
\<close>

record responses_response =
  output_text :: "pystr option"

record chat_response =
  choices :: "pystr option list"

text \<open>
  The injected capability: each call of the provider's client, made through the
  client object, returns a response or raises.
\<close>

record upstream =
  responses_create :: "OpenAI \<Rightarrow> responses_request \<Rightarrow> exn + responses_response"
  chat_create :: "OpenAI \<Rightarrow> chat_request \<Rightarrow> exn + chat_response"

section \<open>Title generation\<close>

text \<open>
  A method returns its result or the exception it raises, the client object after
  the call, and the upstream calls it issued, in order.
\<close>

type_synonym 'a eff = "(exn + 'a) \<times> Client \<times> request list"

definition outcome :: "'a eff \<Rightarrow> exn + 'a" where
  "outcome r = fst r"

definition client_after :: "'a eff \<Rightarrow> Client" where
  "client_after r = fst (snd r)"

definition issued :: "'a eff \<Rightarrow> request list" where
  "issued r = snd (snd r)"

text \<open>The keyword arguments of \<open>responses.create\<close> (core.py lines 145-153).\<close>

definition responses_request_of :: "Client \<Rightarrow> pystr \<Rightarrow> responses_request" where
  "responses_request_of self txt =
     (let prompt = get_system_prompt self @ [10, 10] @ lit ''Text to convert to title: '' @ txt
      in \<lparr>responses_model = model self,
          input = prompt,
          reasoning = [(lit ''effort'', lit ''minimal'')],
          text_param = [(lit ''verbosity'', lit ''low'')],
          responses_timeout = 30.0\<rparr>)"

text \<open>\<open>Client._generate_title_responses_api\<close> (core.py lines 142-161).\<close>

definition generate_title_responses_api :: "upstream \<Rightarrow> Client \<Rightarrow> pystr \<Rightarrow> pystr eff" where
  "generate_title_responses_api up self txt =
     (let rq = responses_request_of self txt;
          empty_response =
            Exn APIError
              (lit ''Model '' @ [39] @ model self @ [39] @ lit '' returned empty response.'')
              None None
      in case responses_create up (private_client self) rq of
           Inl e \<Rightarrow> (Inl e, self, [Responses_create rq])
         | Inr response \<Rightarrow>
             (case (if truthy (output_text response) then output_text response else None) of
                None \<Rightarrow> (Inl empty_response, self, [Responses_create rq])
              | Some title \<Rightarrow>
                  if title = [] then (Inl empty_response, self, [Responses_create rq])
                  else (Inr (strip_chars [39] (strip_chars [34] (strip title))), self,
                        [Responses_create rq])))"

text \<open>The keyword arguments of \<open>chat.completions.create\<close> (core.py lines 165-176).\<close>

definition chat_request_of :: "Client \<Rightarrow> pystr \<Rightarrow> chat_request" where
  "chat_request_of self txt =
     (let system_prompt = get_system_prompt self
      in \<lparr>chat_model = model self,
          messages =
            [[(lit ''role'', lit ''system''), (lit ''content'', system_prompt)],
             [(lit ''role'', lit ''user''), (lit ''content'', txt)]],
          max_completion_tokens = 50,
          temperature = 0.3,
          chat_timeout = 30.0\<rparr>)"

text \<open>\<open>Client._generate_title_chat_api\<close> (core.py lines 163-182).\<close>

definition generate_title_chat_api :: "upstream \<Rightarrow> Client \<Rightarrow> pystr \<Rightarrow> pystr eff" where
  "generate_title_chat_api up self txt =
     (let rq = chat_request_of self txt;
          empty_response = Exn APIError (lit ''OpenAI API returned empty response.'') None None
      in case chat_create up (private_client self) rq of
           Inl e \<Rightarrow> (Inl e, self, [Chat_completions_create rq])
         | Inr response \<Rightarrow>
             (case choices response of
                [] \<Rightarrow>
                  (Inl (Exn IndexError (lit ''list index out of range'') None None), self,
                   [Chat_completions_create rq])
              | None # _ \<Rightarrow> (Inl empty_response, self, [Chat_completions_create rq])
              | Some title # _ \<Rightarrow>
                  if title = [] then (Inl empty_response, self, [Chat_completions_create rq])
                  else (Inr (strip_chars [39] (strip_chars [34] (strip title))), self,
                        [Chat_completions_create rq])))"

text \<open>The handler \<open>except Exception as e\<close> of \<open>generate_title\<close> (core.py lines 101-110).\<close>

definition api_error_of :: "exn \<Rightarrow> exn" where
  "api_error_of e =
     (let generic = Exn APIError (lit ''Failed to generate title: '' @ message e) None (Some e)
      in case status_code e of
           None \<Rightarrow> generic
         | Some s \<Rightarrow>
             if s = 429 then
               Exn APIError (lit ''Rate limit exceeded. Please try again later.'') None (Some e)
             else if s = 401 then Exn APIError (lit ''Invalid API key.'') None (Some e)
             else if s \<ge> 500 then
               Exn APIError (lit ''OpenAI API server error. Please try again later.'') None
                 (Some e)
             else generic)"

text \<open>\<open>Client.generate_title\<close> (core.py lines 74-110).\<close>

definition generate_title :: "upstream \<Rightarrow> Client \<Rightarrow> pystr \<Rightarrow> pystr eff" where
  "generate_title up self txt0 =
     (if txt0 = [] \<or> strip txt0 = [] then
        (Inl (Exn ValidationError (lit ''Input text cannot be empty.'') None None), self, [])
      else
        (let txt = strip txt0 in
         if length txt > 8000 then
           (Inl (Exn ValidationError (lit ''Input text too long (max 8000 characters).'')
                   None None), self, [])
         else
           (case (if model self \<in> GPT5_MODELS then generate_title_responses_api up self txt
                  else generate_title_chat_api up self txt) of
              (Inr title, self', calls) \<Rightarrow> (Inr title, self', calls)
            | (Inl e, self', calls) \<Rightarrow> (Inl (api_error_of e), self', calls))))"

section \<open>Vocabulary of the properties\<close>

text \<open>An outcome raises an exception of the given class.\<close>

definition raises :: "exc_class \<Rightarrow> exn + 'a \<Rightarrow> bool" where
  "raises cls r = (case r of Inl e \<Rightarrow> exc_class e = cls | Inr _ \<Rightarrow> False)"


text \<open>
  The answer of the upstream to the one call \<open>generate_title\<close> makes for a client
  and a trimmed text: it raises \<open>e\<close>, or it returns a response whose text payload
  (\<open>output_text\<close>, or the content of the first choice) is \<open>payload\<close>.
\<close>

definition upstream_raises :: "upstream \<Rightarrow> Client \<Rightarrow> pystr \<Rightarrow> exn \<Rightarrow> bool" where
  "upstream_raises up self txt e =
     (if model self \<in> GPT5_MODELS then
        responses_create up (private_client self) (responses_request_of self txt) = Inl e
      else chat_create up (private_client self) (chat_request_of self txt) = Inl e)"

definition upstream_returns :: "upstream \<Rightarrow> Client \<Rightarrow> pystr \<Rightarrow> pystr option \<Rightarrow> bool" where
  "upstream_returns up self txt payload =
     (if model self \<in> GPT5_MODELS then
        (case responses_create up (private_client self) (responses_request_of self txt) of
           Inl _ \<Rightarrow> False
         | Inr response \<Rightarrow> output_text response = payload)
      else
        (case chat_create up (private_client self) (chat_request_of self txt) of
           Inl _ \<Rightarrow> False
         | Inr response \<Rightarrow> (case choices response of [] \<Rightarrow> False | c # _ \<Rightarrow> c = payload)))"

text \<open>
  The title result as the specification words it, "trimmed of surrounding whitespace
  and a single layer of surrounding quote characters": one quote character is taken
  from each end when the trimmed text starts and ends with the same quote character.
\<close>

definition strip_quote_layer :: "pystr \<Rightarrow> pystr" where
  "strip_quote_layer s =
     (if 2 \<le> length s \<and> hd s = last s \<and> (hd s = 34 \<or> hd s = 39) then butlast (tl s)
      else s)"

definition spec_title_result :: "pystr \<Rightarrow> pystr" where
  "spec_title_result payload = strip_quote_layer (strip payload)"

section \<open>Test doubles\<close>

text \<open>
  The doubles of tests/test\_core.py: a client built with the key \<open>test-key\<close>, and
  an upstream whose two calls both raise the given exception or return the given
  text payload (as the only choice of a chat response).
\<close>

definition test_client :: "pystr \<Rightarrow> Client" where
  "test_client m = \<lparr>model = m, private_client = \<lparr>api_key = lit ''test-key''\<rparr>\<rparr>"

definition mock_upstream :: "exn + pystr option \<Rightarrow> upstream" where
  "mock_upstream r =
     \<lparr>responses_create = (\<lambda>_ _. case r of Inl e \<Rightarrow> Inl e | Inr p \<Rightarrow> Inr \<lparr>output_text = p\<rparr>),
      chat_create = (\<lambda>_ _. case r of Inl e \<Rightarrow> Inl e | Inr p \<Rightarrow> Inr \<lparr>choices = [p]\<rparr>)\<rparr>"


section \<open>Basic facts\<close>

lemma lit_eq_iff: "lit a = lit b \<longleftrightarrow> a = b"
  by (simp add: lit_def inj_map_eq_map [OF inj_of_char])

lemma lit_Nil_iff: "lit s = [] \<longleftrightarrow> s = []"
  by (simp add: lit_def)

lemma length_lit: "length (lit s) = length s"
  by (simp add: lit_def)

lemma test_text_strip: "strip (lit ''Test text'') = lit ''Test text''"
  by (simp add: strip_def strip_with_def isspace_def lit_def)

lemma gpt4o_not_gpt5: "lit ''gpt-4o'' \<notin> GPT5_MODELS"
  by (simp add: GPT5_MODELS_def lit_eq_iff)

lemma gpt5_in_gpt5: "lit ''gpt-5'' \<in> GPT5_MODELS"
  by (simp add: GPT5_MODELS_def)

lemma strip_with_replicate: "\<not> p c \<Longrightarrow> strip_with p (replicate n c) = replicate n c"
  by (cases n) (simp_all add: strip_with_def replicate_append_same)

lemma strip_Nil: "strip [] = []"
  by (simp add: strip_def strip_with_def)

lemma exc_class_api_error_of: "exc_class (api_error_of e) = APIError"
  by (simp add: api_error_of_def Let_def split: option.splits)


lemma x_not_space: "\<not> isspace 120"
  by (simp add: isspace_def)

lemma strip_replicate_x: "strip (replicate n 120) = replicate n 120"
  by (simp add: strip_def strip_with_replicate x_not_space)

lemma strip_blank: "strip (lit ''   '') = []"
  by (simp add: strip_def strip_with_def isspace_def lit_def)

section \<open>Failure mapping\<close>

text \<open>
  Claim C1. For every client and every validated input, when the upstream call raises
  a failure \<open>e\<close>, \<open>generate_title\<close> raises an \<open>APIError\<close> chosen by the status code of
  \<open>e\<close>: 429 gives the rate-limit error, 401 the invalid-key error, any status from 500
  up the server error, and every other failure (no status code, or a status such as
  404 that is none of these) the generic error whose message wraps \<open>str(e)\<close>. The
  cause of the error is \<open>e\<close> in each case.
\<close>

theorem generate_title_failure_mapping:
  assumes "strip txt \<noteq> []" and "length (strip txt) \<le> 8000"
    and "upstream_raises up self (strip txt) e"
  shows "(status_code e = Some 429 \<longrightarrow>
            outcome (generate_title up self txt) =
              Inl (Exn APIError (lit ''Rate limit exceeded. Please try again later.'') None (Some e)))
       \<and> (status_code e = Some 401 \<longrightarrow>
            outcome (generate_title up self txt) =
              Inl (Exn APIError (lit ''Invalid API key.'') None (Some e)))
       \<and> ((\<exists>s. status_code e = Some s \<and> 500 \<le> s) \<longrightarrow>
            outcome (generate_title up self txt) =
              Inl (Exn APIError (lit ''OpenAI API server error. Please try again later.'') None (Some e)))
       \<and> (status_code e = None \<or> (\<exists>s. status_code e = Some s \<and> s \<noteq> 429 \<and> s \<noteq> 401 \<and> s < 500) \<longrightarrow>
            outcome (generate_title up self txt) =
              Inl (Exn APIError (lit ''Failed to generate title: '' @ message e) None (Some e)))"
proof -
  have nonempty: "txt \<noteq> []"
    using assms(1) strip_Nil by auto
  have "outcome (generate_title up self txt) = Inl (api_error_of e)"
    using assms nonempty
    by (simp add: generate_title_def outcome_def upstream_raises_def
        generate_title_responses_api_def generate_title_chat_api_def Let_def split: if_splits)
  then show ?thesis
    by (auto simp: api_error_of_def Let_def)
qed

theorem generate_title_failure_mapping_witness:
  "outcome (generate_title (mock_upstream (Inl (Exn UpstreamException [] (Some 429) None)))
      (test_client (lit ''gpt-4o'')) (lit ''Test text'')) =
     Inl (Exn APIError (lit ''Rate limit exceeded. Please try again later.'') None
       (Some (Exn UpstreamException [] (Some 429) None)))
   \<and> outcome (generate_title (mock_upstream (Inl (Exn UpstreamException [] (Some 401) None)))
      (test_client (lit ''gpt-5'')) (lit ''Test text'')) =
     Inl (Exn APIError (lit ''Invalid API key.'') None
       (Some (Exn UpstreamException [] (Some 401) None)))
   \<and> outcome (generate_title (mock_upstream (Inl (Exn UpstreamException [] (Some 503) None)))
      (test_client (lit ''gpt-4o'')) (lit ''Test text'')) =
     Inl (Exn APIError (lit ''OpenAI API server error. Please try again later.'') None
       (Some (Exn UpstreamException [] (Some 503) None)))
   \<and> outcome (generate_title (mock_upstream (Inl (Exn UpstreamException (lit ''Not found'') (Some 404) None)))
      (test_client (lit ''gpt-4o'')) (lit ''Test text'')) =
     Inl (Exn APIError (lit ''Failed to generate title: '' @ lit ''Not found'') None
       (Some (Exn UpstreamException (lit ''Not found'') (Some 404) None)))
   \<and> outcome (generate_title (mock_upstream (Inl (Exn UpstreamException (lit ''Network error'') None None)))
      (test_client (lit ''gpt-4o'')) (lit ''Test text'')) =
     Inl (Exn APIError (lit ''Failed to generate title: '' @ lit ''Network error'') None
       (Some (Exn UpstreamException (lit ''Network error'') None None)))"
  using
    generate_title_failure_mapping [of "lit ''Test text''"
      "mock_upstream (Inl (Exn UpstreamException [] (Some 429) None))" "test_client (lit ''gpt-4o'')"
      "Exn UpstreamException [] (Some 429) None"]
    generate_title_failure_mapping [of "lit ''Test text''"
      "mock_upstream (Inl (Exn UpstreamException [] (Some 401) None))" "test_client (lit ''gpt-5'')"
      "Exn UpstreamException [] (Some 401) None"]
    generate_title_failure_mapping [of "lit ''Test text''"
      "mock_upstream (Inl (Exn UpstreamException [] (Some 503) None))" "test_client (lit ''gpt-4o'')"
      "Exn UpstreamException [] (Some 503) None"]
    generate_title_failure_mapping [of "lit ''Test text''"
      "mock_upstream (Inl (Exn UpstreamException (lit ''Not found'') (Some 404) None))"
      "test_client (lit ''gpt-4o'')" "Exn UpstreamException (lit ''Not found'') (Some 404) None"]
    generate_title_failure_mapping [of "lit ''Test text''"
      "mock_upstream (Inl (Exn UpstreamException (lit ''Network error'') None None))"
      "test_client (lit ''gpt-4o'')" "Exn UpstreamException (lit ''Network error'') None None"]
  by (simp add: test_text_strip upstream_raises_def mock_upstream_def test_client_def
      gpt4o_not_gpt5 gpt5_in_gpt5 lit_Nil_iff length_lit)

section \<open>Call shapes\<close>

lemma nonempty_of_strip: "strip txt \<noteq> [] \<Longrightarrow> txt \<noteq> []"
  using strip_Nil by auto

lemma whitespace_text_strip:
  "strip (lit ''  '' @ [10] @ lit ''  Test text with whitespace  '' @ [10] @ lit ''  '') =
     lit ''Test text with whitespace''"
  by (simp add: strip_def strip_with_def isspace_def lit_def)

lemma gpt4o_prompt: "get_system_prompt (test_client (lit ''gpt-4o'')) = base_prompt"
  by (simp add: get_system_prompt_def test_client_def lit_eq_iff)

lemma gpt5_prompt: "get_system_prompt (test_client (lit ''gpt-5'')) = base_prompt"
  by (simp add: get_system_prompt_def test_client_def lit_eq_iff)

text \<open>
  Claim C2. On a validated input, a client whose model is one of \<open>gpt-5\<close>,
  \<open>gpt-5-mini\<close>, \<open>gpt-5-nano\<close> issues exactly one call, of the single-prompt shape: the
  instruction, a blank line, \<open>Text to convert to title: \<close> and the trimmed text as
  one prompt string, reasoning effort \<open>minimal\<close>, verbosity \<open>low\<close>, timeout 30. A
  client with any other model issues exactly one call, of the two-message shape:
  the system message is the instruction, the content of the user message is the
  trimmed input text, \<open>max_completion_tokens\<close> is 50, the temperature 0.3 and the
  timeout 30. An input that fails validation issues no call.
\<close>

theorem generate_title_call_shape:
  "(strip txt \<noteq> [] \<and> length (strip txt) \<le> 8000
      \<and> model self \<in> {lit ''gpt-5'', lit ''gpt-5-mini'', lit ''gpt-5-nano''} \<longrightarrow>
      issued (generate_title up self txt) =
        [Responses_create
           \<lparr>responses_model = model self,
            input = get_system_prompt self @ [10, 10] @ lit ''Text to convert to title: ''
                      @ strip txt,
            reasoning = [(lit ''effort'', lit ''minimal'')],
            text_param = [(lit ''verbosity'', lit ''low'')],
            responses_timeout = 30\<rparr>])
   \<and> (strip txt \<noteq> [] \<and> length (strip txt) \<le> 8000
      \<and> model self \<notin> {lit ''gpt-5'', lit ''gpt-5-mini'', lit ''gpt-5-nano''} \<longrightarrow>
      issued (generate_title up self txt) =
        [Chat_completions_create
           \<lparr>chat_model = model self,
            messages =
              [[(lit ''role'', lit ''system''), (lit ''content'', get_system_prompt self)],
               [(lit ''role'', lit ''user''), (lit ''content'', strip txt)]],
            max_completion_tokens = 50,
            temperature = 0.3,
            chat_timeout = 30\<rparr>])
   \<and> (strip txt = [] \<or> 8000 < length (strip txt) \<longrightarrow>
      issued (generate_title up self txt) = [])"
proof -
  have a: "issued (generate_title up self txt) =
      [Responses_create (responses_request_of self (strip txt))]"
    if "strip txt \<noteq> []" and "length (strip txt) \<le> 8000" and "model self \<in> GPT5_MODELS"
    using that nonempty_of_strip [OF that(1)]
    by (simp add: generate_title_def issued_def generate_title_responses_api_def Let_def
        split: sum.splits option.splits)
  have b: "issued (generate_title up self txt) =
      [Chat_completions_create (chat_request_of self (strip txt))]"
    if "strip txt \<noteq> []" and "length (strip txt) \<le> 8000" and "model self \<notin> GPT5_MODELS"
    using that nonempty_of_strip [OF that(1)]
    by (simp add: generate_title_def issued_def generate_title_chat_api_def Let_def
        split: sum.splits option.splits list.splits)
  have c: "issued (generate_title up self txt) = []"
    if "strip txt = [] \<or> 8000 < length (strip txt)"
    using that by (auto simp: generate_title_def issued_def Let_def)
  show ?thesis
    using a b c by (simp add: GPT5_MODELS_def responses_request_of_def chat_request_of_def Let_def)
qed

theorem generate_title_call_shape_witness:
  "issued (generate_title (mock_upstream (Inr (Some (lit ''Test Title''))))
      (test_client (lit ''gpt-5''))
      (lit ''  '' @ [10] @ lit ''  Test text with whitespace  '' @ [10] @ lit ''  '')) =
     [Responses_create
        \<lparr>responses_model = lit ''gpt-5'',
         input = base_prompt @ [10, 10] @ lit ''Text to convert to title: ''
                   @ lit ''Test text with whitespace'',
         reasoning = [(lit ''effort'', lit ''minimal'')],
         text_param = [(lit ''verbosity'', lit ''low'')],
         responses_timeout = 30\<rparr>]
   \<and> issued (generate_title (mock_upstream (Inr (Some (lit ''Test Title''))))
      (test_client (lit ''gpt-4o''))
      (lit ''  '' @ [10] @ lit ''  Test text with whitespace  '' @ [10] @ lit ''  '')) =
     [Chat_completions_create
        \<lparr>chat_model = lit ''gpt-4o'',
         messages =
           [[(lit ''role'', lit ''system''), (lit ''content'', base_prompt)],
            [(lit ''role'', lit ''user''), (lit ''content'', lit ''Test text with whitespace'')]],
         max_completion_tokens = 50,
         temperature = 0.3,
         chat_timeout = 30\<rparr>]
   \<and> issued (generate_title (mock_upstream (Inr (Some (lit ''Test Title''))))
      (test_client (lit ''gpt-4o'')) (lit ''   '')) = []"
  using
    generate_title_call_shape [of
      "lit ''  '' @ [10] @ lit ''  Test text with whitespace  '' @ [10] @ lit ''  ''"
      "test_client (lit ''gpt-5'')" "mock_upstream (Inr (Some (lit ''Test Title'')))"]
    generate_title_call_shape [of
      "lit ''  '' @ [10] @ lit ''  Test text with whitespace  '' @ [10] @ lit ''  ''"
      "test_client (lit ''gpt-4o'')" "mock_upstream (Inr (Some (lit ''Test Title'')))"]
    generate_title_call_shape [of "lit ''   ''" "test_client (lit ''gpt-4o'')"
      "mock_upstream (Inr (Some (lit ''Test Title'')))"]
  unfolding whitespace_text_strip gpt4o_prompt gpt5_prompt strip_blank
  by (simp add: test_client_def lit_eq_iff lit_Nil_iff length_lit)

section \<open>Input validation\<close>

text \<open>
  Claim C3. \<open>generate_title\<close> raises a \<open>ValidationError\<close> exactly when the trimmed
  text is empty (all-whitespace input included) or longer than 8000 code points; a
  trimmed length of exactly 8000 raises none, a trimmed length of 8001 raises one.
\<close>

theorem generate_title_validation:
  "(raises ValidationError (outcome (generate_title up self txt)) \<longleftrightarrow>
      strip txt = [] \<or> 8000 < length (strip txt))
   \<and> (length (strip txt) = 8000 \<longrightarrow>
        \<not> raises ValidationError (outcome (generate_title up self txt)))
   \<and> (length (strip txt) = 8001 \<longrightarrow>
        raises ValidationError (outcome (generate_title up self txt)))"
proof -
  have invalid: "strip txt = [] \<or> 8000 < length (strip txt) \<Longrightarrow>
      raises ValidationError (outcome (generate_title up self txt))"
    by (auto simp: generate_title_def outcome_def raises_def Let_def)
  have valid: "raises ValidationError (outcome (generate_title up self txt)) \<Longrightarrow>
      strip txt = [] \<or> 8000 < length (strip txt)"
    using exc_class_api_error_of
    by (auto simp: generate_title_def outcome_def raises_def Let_def strip_Nil
        split: if_splits prod.splits sum.splits)
  have iff: "raises ValidationError (outcome (generate_title up self txt)) \<longleftrightarrow>
      strip txt = [] \<or> 8000 < length (strip txt)"
    using invalid valid by blast
  show ?thesis
    unfolding iff by auto
qed

theorem generate_title_validation_witness:
  "\<not> raises ValidationError (outcome (generate_title (mock_upstream (Inr (Some (lit ''Test Title''))))
        (test_client (lit ''gpt-4o'')) (replicate 8000 120)))
   \<and> raises ValidationError (outcome (generate_title (mock_upstream (Inr (Some (lit ''Test Title''))))
        (test_client (lit ''gpt-4o'')) (replicate 8001 120)))
   \<and> raises ValidationError (outcome (generate_title (mock_upstream (Inr (Some (lit ''Test Title''))))
        (test_client (lit ''gpt-4o'')) (lit ''   '')))"
  using
    generate_title_validation [of "mock_upstream (Inr (Some (lit ''Test Title'')))"
      "test_client (lit ''gpt-4o'')" "replicate 8000 120"]
    generate_title_validation [of "mock_upstream (Inr (Some (lit ''Test Title'')))"
      "test_client (lit ''gpt-4o'')" "replicate 8001 120"]
    generate_title_validation [of "mock_upstream (Inr (Some (lit ''Test Title'')))"
      "test_client (lit ''gpt-4o'')" "lit ''   ''"]
  by (simp add: strip_replicate_x strip_blank)

section \<open>The client is not changed by a call\<close>

text \<open>
  Claim C9. The configuration fixed at construction is unchanged by every later
  operation: after any call of \<open>generate_title\<close>, whether it returns a title or raises,
  the client's \<open>model\<close> and its underlying client object are what they were before.
\<close>

theorem generate_title_keeps_client:
  "client_after (generate_title up self txt) = self
   \<and> model (client_after (generate_title up self txt)) = model self
   \<and> private_client (client_after (generate_title up self txt)) = private_client self"
proof -
  have a: "client_after (generate_title_responses_api up self t) = self" for t
    by (simp add: generate_title_responses_api_def client_after_def Let_def
        split: sum.splits option.splits)
  have b: "client_after (generate_title_chat_api up self t) = self" for t
    by (simp add: generate_title_chat_api_def client_after_def Let_def
        split: sum.splits option.splits list.splits)
  have "client_after (generate_title up self txt) = self"
    using a [of "strip txt"] b [of "strip txt"]
    by (auto simp: generate_title_def client_after_def Let_def split: prod.splits sum.splits)
  then show ?thesis by simp
qed

theorem generate_title_keeps_client_witness:
  "client_after (generate_title (mock_upstream (Inl (Exn UpstreamException [] (Some 429) None)))
      (test_client (lit ''gpt-5'')) (lit ''Test text'')) = test_client (lit ''gpt-5'')
   \<and> client_after (generate_title (mock_upstream (Inr (Some (lit ''Test Title''))))
      (test_client (lit ''gpt-4o'')) (lit ''Test text'')) = test_client (lit ''gpt-4o'')"
  using
    generate_title_keeps_client [of "mock_upstream (Inl (Exn UpstreamException [] (Some 429) None))"
      "test_client (lit ''gpt-5'')" "lit ''Test text''"]
    generate_title_keeps_client [of "mock_upstream (Inr (Some (lit ''Test Title'')))"
      "test_client (lit ''gpt-4o'')" "lit ''Test text''"]
  by simp

section \<open>Post-processing of the returned text\<close>

lemma generate_title_valid:
  assumes "strip txt \<noteq> []" and "length (strip txt) \<le> 8000"
  shows "generate_title up self txt =
     (case (if model self \<in> GPT5_MODELS then generate_title_responses_api up self (strip txt)
            else generate_title_chat_api up self (strip txt)) of
        (Inr title, self', calls) \<Rightarrow> (Inr title, self', calls)
      | (Inl e, self', calls) \<Rightarrow> (Inl (api_error_of e), self', calls))"
  using assms nonempty_of_strip [OF assms(1)] by (simp add: generate_title_def Let_def)

lemma test_title_clean:
  "strip_chars [39] (strip_chars [34] (strip (lit ''Test Title''))) = lit ''Test Title''"
  by (simp add: strip_chars_def strip_def strip_with_def isspace_def lit_def)

lemma quoted_title_clean:
  "strip_chars [39] (strip_chars [34] (strip ([34] @ lit ''Quoted Title'' @ [34]))) =
     lit ''Quoted Title''"
  by (simp add: strip_chars_def strip_def strip_with_def isspace_def lit_def)

lemma doubled_quotes_clean:
  "strip_chars [39] (strip_chars [34] (strip ([34, 34] @ lit ''A'' @ [34, 34]))) = lit ''A''"
  by (simp add: strip_chars_def strip_def strip_with_def isspace_def lit_def)

lemma doubled_quotes_spec:
  "spec_title_result ([34, 34] @ lit ''A'' @ [34, 34]) = [34] @ lit ''A'' @ [34]"
  by (simp add: spec_title_result_def strip_quote_layer_def strip_def strip_with_def
      isspace_def lit_def)

text \<open>
  Claim C4, as amended. On a validated input, for every non-empty text payload the
  upstream returns, \<open>generate_title\<close> returns that payload trimmed of surrounding
  whitespace, then of every leading and trailing double-quote character (code point
  34), then of every leading and trailing single-quote character (code point 39).
  In particular the payload \<open>Test Title\<close> gives \<open>Test Title\<close>, and \<open>Quoted Title\<close>
  within one pair of double quotes gives \<open>Quoted Title\<close>.
\<close>

theorem generate_title_cleans_payload:
  assumes "strip txt \<noteq> []" and "length (strip txt) \<le> 8000"
    and "upstream_returns up self (strip txt) (Some payload)" and "payload \<noteq> []"
  shows "outcome (generate_title up self txt) =
           Inr (strip_chars [39] (strip_chars [34] (strip payload)))
       \<and> (payload = lit ''Test Title'' \<longrightarrow>
            outcome (generate_title up self txt) = Inr (lit ''Test Title''))
       \<and> (payload = [34] @ lit ''Quoted Title'' @ [34] \<longrightarrow>
            outcome (generate_title up self txt) = Inr (lit ''Quoted Title''))"
proof -
  have main: "outcome (generate_title up self txt) =
      Inr (strip_chars [39] (strip_chars [34] (strip payload)))"
    using assms(3,4)
    by (auto simp: generate_title_valid [OF assms(1,2)] outcome_def upstream_returns_def
        generate_title_responses_api_def generate_title_chat_api_def Let_def truthy_def
        split: if_splits sum.splits list.splits)
  show ?thesis
    using main test_title_clean quoted_title_clean by simp
qed

theorem generate_title_cleans_payload_witness:
  "outcome (generate_title (mock_upstream (Inr (Some (lit ''Test Title''))))
      (test_client (lit ''gpt-4o'')) (lit ''Test text'')) = Inr (lit ''Test Title'')
   \<and> outcome (generate_title (mock_upstream (Inr (Some ([34] @ lit ''Quoted Title'' @ [34]))))
      (test_client (lit ''gpt-4o'')) (lit ''Test text'')) = Inr (lit ''Quoted Title'')
   \<and> outcome (generate_title (mock_upstream (Inr (Some ([34] @ lit ''Quoted Title'' @ [34]))))
      (test_client (lit ''gpt-5'')) (lit ''Test text'')) = Inr (lit ''Quoted Title'')"
  using
    generate_title_cleans_payload [of "lit ''Test text''"
      "mock_upstream (Inr (Some (lit ''Test Title'')))" "test_client (lit ''gpt-4o'')"
      "lit ''Test Title''"]
    generate_title_cleans_payload [of "lit ''Test text''"
      "mock_upstream (Inr (Some ([34] @ lit ''Quoted Title'' @ [34])))"
      "test_client (lit ''gpt-4o'')" "[34] @ lit ''Quoted Title'' @ [34]"]
    generate_title_cleans_payload [of "lit ''Test text''"
      "mock_upstream (Inr (Some ([34] @ lit ''Quoted Title'' @ [34])))"
      "test_client (lit ''gpt-5'')" "[34] @ lit ''Quoted Title'' @ [34]"]
    test_title_clean quoted_title_clean
  by (simp add: test_text_strip upstream_returns_def mock_upstream_def test_client_def
      gpt4o_not_gpt5 gpt5_in_gpt5 lit_Nil_iff length_lit)

text \<open>
  The claim as the specification words it, with a single layer of surrounding quote
  characters removed, fails: for the payload \<open>A\<close> within two pairs of double quotes
  the code returns \<open>A\<close>, while removing a single layer leaves \<open>A\<close> within one pair.
\<close>

theorem single_quote_layer_counterexample:
  "outcome (generate_title (mock_upstream (Inr (Some ([34, 34] @ lit ''A'' @ [34, 34]))))
      (test_client (lit ''gpt-4o'')) (lit ''Test text'')) = Inr (lit ''A'')
   \<and> spec_title_result ([34, 34] @ lit ''A'' @ [34, 34]) = [34] @ lit ''A'' @ [34]
   \<and> outcome (generate_title (mock_upstream (Inr (Some ([34, 34] @ lit ''A'' @ [34, 34]))))
      (test_client (lit ''gpt-4o'')) (lit ''Test text''))
     \<noteq> Inr (spec_title_result ([34, 34] @ lit ''A'' @ [34, 34]))"
proof -
  have valid: "strip (lit ''Test text'') \<noteq> []" "length (strip (lit ''Test text'')) \<le> 8000"
    by (simp_all add: test_text_strip lit_Nil_iff length_lit)
  have run: "outcome (generate_title (mock_upstream (Inr (Some ([34, 34] @ lit ''A'' @ [34, 34]))))
      (test_client (lit ''gpt-4o'')) (lit ''Test text'')) =
      Inr (strip_chars [39] (strip_chars [34] (strip ([34, 34] @ lit ''A'' @ [34, 34]))))"
    by (simp add: generate_title_valid [OF valid] outcome_def generate_title_chat_api_def
        mock_upstream_def test_client_def gpt4o_not_gpt5 Let_def)
  have differ: "lit ''A'' \<noteq> [34] @ lit ''A'' @ [34]"
    by (simp add: lit_def)
  show ?thesis
    using run doubled_quotes_clean doubled_quotes_spec differ by simp
qed

section \<open>Empty responses\<close>





section \<open>The prompt builder and the model classes\<close>

lemma prompts_differ: "simplified_prompt \<noteq> base_prompt"
  by (simp add: simplified_prompt_def base_prompt_def lit_def)

lemma GPT5_subset_SUPPORTED: "GPT5_MODELS \<subseteq> set SUPPORTED_MODELS"
  by (simp add: GPT5_MODELS_def SUPPORTED_MODELS_def)

lemma class_B_models:
  "set SUPPORTED_MODELS - GPT5_MODELS =
     {lit ''gpt-4o'', lit ''gpt-4o-mini'', lit ''gpt-4'', lit ''gpt-3.5-turbo''}"
  by (auto simp: GPT5_MODELS_def SUPPORTED_MODELS_def lit_eq_iff)

text \<open>
  Claim C6. The prompt builder is a function of the model identifier alone: it
  returns the simplified instruction for \<open>gpt-3.5-turbo\<close> and the full instruction
  for every other model, the two instructions differ, and two clients with the same
  model get the same instruction. Class A (\<open>gpt-5\<close>, \<open>gpt-5-mini\<close>, \<open>gpt-5-nano\<close>) and
  class B (the other supported models) are disjoint and together are the supported
  set.
\<close>

theorem prompt_builder_and_model_classes:
  "get_system_prompt self =
     (if model self = lit ''gpt-3.5-turbo'' then simplified_prompt else base_prompt)
   \<and> simplified_prompt \<noteq> base_prompt
   \<and> (model c1 = model c2 \<longrightarrow> get_system_prompt c1 = get_system_prompt c2)
   \<and> (model self \<in> set SUPPORTED_MODELS \<and> model self \<noteq> lit ''gpt-3.5-turbo'' \<longrightarrow>
        get_system_prompt self = base_prompt)
   \<and> GPT5_MODELS = {lit ''gpt-5'', lit ''gpt-5-mini'', lit ''gpt-5-nano''}
   \<and> set SUPPORTED_MODELS - GPT5_MODELS =
        {lit ''gpt-4o'', lit ''gpt-4o-mini'', lit ''gpt-4'', lit ''gpt-3.5-turbo''}
   \<and> GPT5_MODELS \<inter> (set SUPPORTED_MODELS - GPT5_MODELS) = {}
   \<and> GPT5_MODELS \<union> (set SUPPORTED_MODELS - GPT5_MODELS) = set SUPPORTED_MODELS"
proof -
  have a: "get_system_prompt c =
      (if model c = lit ''gpt-3.5-turbo'' then simplified_prompt else base_prompt)" for c
    by (simp add: get_system_prompt_def)
  have b: "GPT5_MODELS \<union> (set SUPPORTED_MODELS - GPT5_MODELS) = set SUPPORTED_MODELS"
    using GPT5_subset_SUPPORTED by blast
  have c: "GPT5_MODELS \<inter> (set SUPPORTED_MODELS - GPT5_MODELS) = {}"
    by blast
  show ?thesis
    using prompts_differ class_B_models b c by (simp add: a GPT5_MODELS_def)
qed

theorem prompt_builder_and_model_classes_witness:
  "get_system_prompt \<lparr>model = lit ''gpt-3.5-turbo'', private_client = \<lparr>api_key = lit ''key-1''\<rparr>\<rparr>
     = simplified_prompt
   \<and> get_system_prompt \<lparr>model = lit ''gpt-4'', private_client = \<lparr>api_key = lit ''key-1''\<rparr>\<rparr>
     = base_prompt
   \<and> get_system_prompt \<lparr>model = lit ''gpt-5-nano'', private_client = \<lparr>api_key = lit ''key-1''\<rparr>\<rparr>
     = get_system_prompt \<lparr>model = lit ''gpt-5-nano'', private_client = \<lparr>api_key = lit ''key-2''\<rparr>\<rparr>"
  using
    prompt_builder_and_model_classes [of
      "\<lparr>model = lit ''gpt-3.5-turbo'', private_client = \<lparr>api_key = lit ''key-1''\<rparr>\<rparr>"]
    prompt_builder_and_model_classes [of
      "\<lparr>model = lit ''gpt-4'', private_client = \<lparr>api_key = lit ''key-1''\<rparr>\<rparr>"
      "\<lparr>model = lit ''gpt-5-nano'', private_client = \<lparr>api_key = lit ''key-1''\<rparr>\<rparr>"
      "\<lparr>model = lit ''gpt-5-nano'', private_client = \<lparr>api_key = lit ''key-2''\<rparr>\<rparr>"]
  by (simp add: lit_eq_iff SUPPORTED_MODELS_def)

section \<open>Construction\<close>

text \<open>
  Claim C7. Construction with a model identifier outside the supported set fails with
  a \<open>ValidationError\<close>; with a supported identifier and a credential available (a
  non-empty explicit key, or a non-empty \<open>OPENAI_API_KEY\<close> in the environment) it
  succeeds, and the client holds that model.
\<close>

theorem init_checks_model:
  "(m \<notin> set SUPPORTED_MODELS \<longrightarrow>
      init env key m = Inl (unsupported_model_error m)
      \<and> raises ValidationError (init env key m))
   \<and> (m \<in> set SUPPORTED_MODELS
        \<and> ((\<exists>k. key = Some k \<and> k \<noteq> [])
            \<or> (\<exists>k. getenv env (lit ''OPENAI_API_KEY'') = Some k \<and> k \<noteq> [])) \<longrightarrow>
      (\<exists>c. init env key m = Inr c \<and> model c = m))"
  by (auto simp: init_def raises_def unsupported_model_error_def py_or_def truthy_def
      split: option.splits)

theorem init_checks_model_witness:
  "init Map.empty (Some (lit ''test-key'')) (lit ''invalid-model'') =
     Inl (unsupported_model_error (lit ''invalid-model''))
   \<and> raises ValidationError (init Map.empty (Some (lit ''test-key'')) (lit ''invalid-model''))
   \<and> (\<exists>c. init Map.empty (Some (lit ''test-key'')) (lit ''gpt-4o-mini'') = Inr c
          \<and> model c = lit ''gpt-4o-mini'')
   \<and> (\<exists>c. init [lit ''OPENAI_API_KEY'' \<mapsto> lit ''env-key''] None (lit ''gpt-5'') = Inr c
          \<and> model c = lit ''gpt-5'')"
  using
    init_checks_model [of "lit ''invalid-model''" Map.empty "Some (lit ''test-key'')"]
    init_checks_model [of "lit ''gpt-4o-mini''" Map.empty "Some (lit ''test-key'')"]
    init_checks_model [of "lit ''gpt-5''" "[lit ''OPENAI_API_KEY'' \<mapsto> lit ''env-key'']" None]
  by (simp add: SUPPORTED_MODELS_def lit_eq_iff lit_Nil_iff getenv_def raises_def
      unsupported_model_error_def)

text \<open>
  Claim C8. For a supported model, construction fails with a \<open>ValidationError\<close> if
  and only if no credential is available from either source, that is the explicit
  key is \<open>None\<close> or empty and \<open>OPENAI_API_KEY\<close> is unset or empty; otherwise it produces
  the client configured with the model and the credential, the explicit key first.
\<close>

theorem init_checks_credential:
  assumes "m \<in> set SUPPORTED_MODELS"
  shows "(raises ValidationError (init env key m) \<longleftrightarrow>
            (key = None \<or> key = Some [])
            \<and> (getenv env (lit ''OPENAI_API_KEY'') = None
                \<or> getenv env (lit ''OPENAI_API_KEY'') = Some []))
       \<and> ((key = None \<or> key = Some [])
            \<and> (getenv env (lit ''OPENAI_API_KEY'') = None
                \<or> getenv env (lit ''OPENAI_API_KEY'') = Some []) \<longrightarrow>
            init env key m = Inl api_key_required_error)
       \<and> (\<forall>k. key = Some k \<and> k \<noteq> [] \<longrightarrow>
            init env key m = Inr \<lparr>model = m, private_client = \<lparr>api_key = k\<rparr>\<rparr>)
       \<and> (\<forall>k. (key = None \<or> key = Some [])
               \<and> getenv env (lit ''OPENAI_API_KEY'') = Some k \<and> k \<noteq> [] \<longrightarrow>
            init env key m = Inr \<lparr>model = m, private_client = \<lparr>api_key = k\<rparr>\<rparr>)"
  using assms
  by (auto simp: init_def raises_def api_key_required_error_def py_or_def truthy_def
      split: option.splits)

theorem init_checks_credential_witness:
  "raises ValidationError (init Map.empty None (lit ''gpt-4o''))
   \<and> init Map.empty None (lit ''gpt-4o'') = Inl api_key_required_error
   \<and> init Map.empty (Some (lit ''test-key'')) (lit ''gpt-4o'') = Inr (test_client (lit ''gpt-4o''))
   \<and> \<not> raises ValidationError (init Map.empty (Some (lit ''test-key'')) (lit ''gpt-4o''))
   \<and> init [lit ''OPENAI_API_KEY'' \<mapsto> lit ''env-key''] None (lit ''gpt-4o'') =
       Inr \<lparr>model = lit ''gpt-4o'', private_client = \<lparr>api_key = lit ''env-key''\<rparr>\<rparr>"
proof -
  have s: "lit ''gpt-4o'' \<in> set SUPPORTED_MODELS"
    by (simp add: SUPPORTED_MODELS_def)
  show ?thesis
    using
      init_checks_credential [OF s, of Map.empty None]
      init_checks_credential [OF s, of Map.empty "Some (lit ''test-key'')"]
      init_checks_credential [OF s, of "[lit ''OPENAI_API_KEY'' \<mapsto> lit ''env-key'']" None]
    by (simp add: getenv_def lit_Nil_iff test_client_def raises_def api_key_required_error_def)
qed

text \<open>
  Claim C10. An explicit key that is the empty string is treated as an absent one:
  construction falls back to \<open>OPENAI_API_KEY\<close>, succeeds with that value when it is
  non-empty, and fails with a \<open>ValidationError\<close> when it is unset or empty.
\<close>

theorem init_empty_key_falls_back:
  "init env (Some []) m = init env None m
   \<and> (m \<in> set SUPPORTED_MODELS \<longrightarrow>
        (\<forall>k. getenv env (lit ''OPENAI_API_KEY'') = Some k \<and> k \<noteq> [] \<longrightarrow>
           init env (Some []) m = Inr \<lparr>model = m, private_client = \<lparr>api_key = k\<rparr>\<rparr>))
   \<and> (m \<in> set SUPPORTED_MODELS
        \<and> (getenv env (lit ''OPENAI_API_KEY'') = None
            \<or> getenv env (lit ''OPENAI_API_KEY'') = Some []) \<longrightarrow>
        init env (Some []) m = Inl api_key_required_error
        \<and> raises ValidationError (init env (Some []) m))"
  by (auto simp: init_def raises_def api_key_required_error_def py_or_def truthy_def
      split: option.splits)

theorem init_empty_key_falls_back_witness:
  "init [lit ''OPENAI_API_KEY'' \<mapsto> lit ''env-key''] (Some []) (lit ''gpt-4o'') =
     Inr \<lparr>model = lit ''gpt-4o'', private_client = \<lparr>api_key = lit ''env-key''\<rparr>\<rparr>
   \<and> init Map.empty (Some []) (lit ''gpt-4o'') = Inl api_key_required_error
   \<and> raises ValidationError (init Map.empty (Some []) (lit ''gpt-4o''))
   \<and> init [lit ''OPENAI_API_KEY'' \<mapsto> []] (Some []) (lit ''gpt-4o'') = Inl api_key_required_error"
proof -
  have s: "lit ''gpt-4o'' \<in> set SUPPORTED_MODELS"
    by (simp add: SUPPORTED_MODELS_def)
  show ?thesis
    using s
      init_empty_key_falls_back [of "[lit ''OPENAI_API_KEY'' \<mapsto> lit ''env-key'']" "lit ''gpt-4o''",
        THEN conjunct2]
      init_empty_key_falls_back [of Map.empty "lit ''gpt-4o''", THEN conjunct2]
      init_empty_key_falls_back [of "[lit ''OPENAI_API_KEY'' \<mapsto> []]" "lit ''gpt-4o''",
        THEN conjunct2]
    by (simp add: getenv_def lit_Nil_iff raises_def api_key_required_error_def)
qed

end
